theory Spec2Isabelle
  imports Main
begin

section \<open>Errors\<close>

text \<open>
  The error kinds of the executor contract and of the serialization layer.  A Python
  exception is the \<open>Inl\<close> branch of a result.
\<close>

datatype error =
    TypeMismatchError | NotCallableError | ArityError | SelectionError
  | ForeignHandleError | ClosedExecutorError | SerializationError

section \<open>Types and their wire format\<close>

text \<open>
  \<open>serialization_test.py\<close> exercises \<open>serialize_type\<close> and \<open>deserialize_type\<close> on tensor,
  sequence, named-tuple and function types.  The element types below are the ones the tests
  use.  A tensor shape is a list of dimensions, \<open>None\<close> standing for an undefined one
  (\<open>(tf.int32, [None])\<close>); a tuple element carries an optional name; a function type has an
  optional parameter type (\<open>FunctionType(None, tf.bool)\<close>).
\<close>

datatype dtype = DT_FLOAT | DT_INT32 | DT_INT64 | DT_STRING | DT_BOOL

datatype Type =
    TensorType dtype "nat option list"
  | SequenceType Type
  | NamedTupleType "(string option \<times> Type) list"
  | FunctionType "Type option" Type

text \<open>
  The protocol message for a type: a oneof with the variants tensor, sequence, tuple and
  function, which may also be left unset.  The tensor variant holds the dtype and one size
  per dimension, as in \<open>tensor { dtype: DT_INT32 shape { dim { size: 10 } dim { size: 20 } } }\<close>.
\<close>

datatype pb_Type =
    pb_tensor dtype "int list"
  | pb_sequence pb_Type
  | pb_tuple "(string option \<times> pb_Type) list"
  | pb_function "pb_Type option" pb_Type
  | pb_unset

text \<open>
  Modelled from the spec: \<open>serialize_type\<close> lives in \<open>serialization.py\<close>, which is not among
  the sources; only its tests are.  Section 4.4: a structural, recursive encoding; a tensor
  leaf encodes the dtype and each dimension's size, or \<open>-1\<close> for an unknown dimension; a
  sequence encodes its element type; a named tuple encodes the ordered list of
  (optional name, value) pairs; a function encodes the optional parameter type and the
  result type.
\<close>

definition dim_size :: "nat option \<Rightarrow> int" where
  "dim_size d = (case d of None \<Rightarrow> - 1 | Some n \<Rightarrow> int n)"

primrec serialize_type :: "Type \<Rightarrow> pb_Type" where
  "serialize_type (TensorType d shape) = pb_tensor d (map dim_size shape)"
| "serialize_type (SequenceType t) = pb_sequence (serialize_type t)"
| "serialize_type (NamedTupleType elems) =
     pb_tuple (map (map_prod id serialize_type) elems)"
| "serialize_type (FunctionType p r) =
     pb_function (map_option serialize_type p) (serialize_type r)"

text \<open>
  Modelled from the spec: \<open>deserialize_type\<close> (also in \<open>serialization.py\<close>) is the structural
  inverse.  A message whose oneof is unset, or a dimension size below \<open>-1\<close>, is a malformed
  message and gives \<open>SerializationError\<close> (section 7).  \<open>collect\<close> gathers the elements of a
  tuple and stops at the first element that fails.
\<close>

definition dim_of_size :: "int \<Rightarrow> nat option" where
  "dim_of_size n = (if n = - 1 then None else Some (nat n))"

fun collect :: "('n \<times> (error + 'a)) list \<Rightarrow> error + ('n \<times> 'a) list" where
  "collect [] = Inr []"
| "collect ((n, Inl e) # rest) = Inl e"
| "collect ((n, Inr a) # rest) =
     (case collect rest of Inl e \<Rightarrow> Inl e | Inr as \<Rightarrow> Inr ((n, a) # as))"

primrec deserialize_type :: "pb_Type \<Rightarrow> error + Type" where
  "deserialize_type (pb_tensor d dims) =
     (if list_ex (\<lambda>n. n < - 1) dims then Inl SerializationError
      else Inr (TensorType d (map dim_of_size dims)))"
| "deserialize_type (pb_sequence m) =
     (case deserialize_type m of Inl e \<Rightarrow> Inl e | Inr t \<Rightarrow> Inr (SequenceType t))"
| "deserialize_type (pb_tuple elems) =
     (case collect (map (map_prod id deserialize_type) elems) of
        Inl e \<Rightarrow> Inl e
      | Inr ts \<Rightarrow> Inr (NamedTupleType ts))"
| "deserialize_type (pb_function p r) =
     (case map_option deserialize_type p of
        Some (Inl e) \<Rightarrow> Inl e
      | Some (Inr pt) \<Rightarrow>
          (case deserialize_type r of Inl e \<Rightarrow> Inl e | Inr rt \<Rightarrow> Inr (FunctionType (Some pt) rt))
      | None \<Rightarrow>
          (case deserialize_type r of Inl e \<Rightarrow> Inl e | Inr rt \<Rightarrow> Inr (FunctionType None rt)))"
| "deserialize_type pb_unset = Inl SerializationError"

text \<open>
  Modelled from the spec: \<open>Type.is_assignable_from\<close> (in \<open>types.py\<close>, not among the sources).
  Section 3 describes it as a compatibility relation, contravariant in the parameter, with
  shape subtyping: \<open>is_assignable_from t other\<close> is \<open>t.is_assignable_from(other)\<close>.  A tensor
  accepts the same dtype with the same rank, an undefined dimension of the target accepting
  any size; tuples are compared element by element with equal names; the parameter of a
  function type is compared in the opposite direction.
\<close>

fun dim_accepts :: "nat option \<Rightarrow> nat option \<Rightarrow> bool" where
  "dim_accepts None _ = True"
| "dim_accepts (Some n) d = (d = Some n)"

function is_assignable_from :: "Type \<Rightarrow> Type \<Rightarrow> bool"
  and all_assignable_from :: "(string option \<times> Type) list \<Rightarrow> (string option \<times> Type) list \<Rightarrow> bool"
where
  "is_assignable_from (TensorType d shape) other =
     (case other of
        TensorType d' shape' \<Rightarrow> d = d' \<and> list_all2 dim_accepts shape shape'
      | _ \<Rightarrow> False)"
| "is_assignable_from (SequenceType t) other =
     (case other of SequenceType t' \<Rightarrow> is_assignable_from t t' | _ \<Rightarrow> False)"
| "is_assignable_from (NamedTupleType elems) other =
     (case other of NamedTupleType elems' \<Rightarrow> all_assignable_from elems elems' | _ \<Rightarrow> False)"
| "is_assignable_from (FunctionType p r) other =
     (case other of
        FunctionType p' r' \<Rightarrow>
          (case (p, p') of
             (None, None) \<Rightarrow> True
           | (Some pt, Some pt') \<Rightarrow> is_assignable_from pt' pt
           | _ \<Rightarrow> False) \<and> is_assignable_from r r'
      | _ \<Rightarrow> False)"
| "all_assignable_from [] [] = True"
| "all_assignable_from ((n, t) # es) ((n', t') # es') =
     (n = n' \<and> is_assignable_from t t' \<and> all_assignable_from es es')"
| "all_assignable_from [] (e # es') = False"
| "all_assignable_from (e # es) [] = False"
  by pat_completeness auto
termination
  apply (relation "measure (\<lambda>x. case x of
      Inl (a, b) \<Rightarrow> size a + size b
    | Inr (xs, ys) \<Rightarrow> size_list (size_prod (\<lambda>_. 0) size) xs + size_list (size_prod (\<lambda>_. 0) size) ys)")
  apply auto
  done

section \<open>The tracing executor\<close>

subsection \<open>Values of the trace\<close>

text \<open>
  \<open>create_tuple\<close> takes a structure of handles and maps it with
  \<open>anonymous_tuple.map_structure\<close>, which applies a function to every leaf of a nested
  anonymous tuple and keeps names and order.  The helper is not among the sources; it is the
  map function of the datatype of such structures.
\<close>

datatype 'a struct = Leaf 'a | Struct "(string option \<times> 'a struct) list"

abbreviation map_structure :: "('a \<Rightarrow> 'b) \<Rightarrow> 'a struct \<Rightarrow> 'b struct" where
  "map_structure \<equiv> map_struct"

text \<open>
  An entry of the trace is a Python tuple: the method name, then the arguments, then the
  result.  Its components are strings, integers (handle indices and positions), \<open>None\<close>,
  the raw value and the type given to \<open>create_value\<close>, a structure of indices, and the
  result of \<open>compute\<close>.
\<close>

datatype ('v, 'r) item =
    PyStr string | PyInt int | PyNone | PyValue 'v | PyType Type
  | PyStruct "int struct" | PyResult 'r

type_synonym ('v, 'r) entry = "('v, 'r) item list"

subsection \<open>The wrapped executor\<close>

text \<open>
  \<open>executor_value_base.ExecutorValue\<close> and \<open>executor_base.Executor\<close> are interfaces; the
  tracing executor works with any implementation.  A value of the target is an object with
  its own \<open>compute\<close> method, its type signature and whatever it embeds, which the tracing
  executor never inspects.  A target executor is the table of its methods.  All targets act
  on a state \<open>'s\<close>; a method returns its result or the exception it raised, and the state it
  left behind in either case.  The definitions of the methods below are the methods
  run without interruption, as under \<open>run_sync\<close>.  No method of the tracing executor awaits
  anything after the call of the target has returned, so the index is allocated and the entry
  appended in one step with the return of that call; calls that overlap are treated under
  calls in flight.
\<close>

record ('s, 'r, 'p) ExecutorValue =
  ev_compute :: "'s \<Rightarrow> (error + 'r) \<times> 's"
  ev_type_signature :: Type
  ev_embedded :: 'p

record ('s, 'v, 'r, 'p) Executor =
  ex_create_value :: "'v \<Rightarrow> Type option \<Rightarrow> 's \<Rightarrow> (error + ('s, 'r, 'p) ExecutorValue) \<times> 's"
  ex_create_call :: "('s, 'r, 'p) ExecutorValue \<Rightarrow> ('s, 'r, 'p) ExecutorValue option \<Rightarrow> 's
                      \<Rightarrow> (error + ('s, 'r, 'p) ExecutorValue) \<times> 's"
  ex_create_tuple :: "('s, 'r, 'p) ExecutorValue struct \<Rightarrow> 's
                      \<Rightarrow> (error + ('s, 'r, 'p) ExecutorValue) \<times> 's"
  ex_create_selection :: "('s, 'r, 'p) ExecutorValue \<Rightarrow> int option \<Rightarrow> string option \<Rightarrow> 's
                      \<Rightarrow> (error + ('s, 'r, 'p) ExecutorValue) \<times> 's"
  ex_close :: "'s \<Rightarrow> (error + unit) \<times> 's"

subsection \<open>Objects of the tracing executor\<close>

text \<open>
  \<open>TracingExecutorValue\<close> holds a reference to its owner, its index and the wrapped value;
  \<open>TracingExecutor\<close> holds \<open>_target\<close>, \<open>_last_used_index\<close> and \<open>_trace\<close>.  Since a handle
  refers to the executor that owns it and \<open>compute\<close> writes to that executor's trace, the
  tracing executors live in a store indexed by references.
\<close>

type_synonym ref = nat

record ('s, 'r, 'p) TracingExecutorValue =
  tev_owner :: ref
  tev_index :: int
  tev_value :: "('s, 'r, 'p) ExecutorValue"

record ('s, 'v, 'r, 'p) TracingExecutor =
  target :: "('s, 'v, 'r, 'p) Executor"
  last_used_index :: int
  trace :: "('v, 'r) entry list"

record ('s, 'v, 'r, 'p) world =
  target_world :: 's
  executors :: "ref \<Rightarrow> ('s, 'v, 'r, 'p) TracingExecutor"

text \<open>\<open>TracingExecutor.__init__\<close>: the index counter starts at 0 and the trace is empty.\<close>

definition TracingExecutor_init ::
  "('s, 'v, 'r, 'p) Executor \<Rightarrow> ('s, 'v, 'r, 'p) TracingExecutor" where
  "TracingExecutor_init tgt = \<lparr>target = tgt, last_used_index = 0, trace = []\<rparr>"

text \<open>\<open>TracingExecutor._get_new_value_index\<close>.\<close>

definition get_new_value_index ::
  "ref \<Rightarrow> ('s, 'v, 'r, 'p) world \<Rightarrow> int \<times> ('s, 'v, 'r, 'p) world" where
  "get_new_value_index self w =
     (let val_index = last_used_index (executors w self) + 1
      in (val_index,
          w\<lparr>executors := (executors w)(self := (executors w self)\<lparr>last_used_index := val_index\<rparr>)\<rparr>))"

text \<open>\<open>self._trace.append(e)\<close>.\<close>

definition trace_append ::
  "ref \<Rightarrow> ('v, 'r) entry \<Rightarrow> ('s, 'v, 'r, 'p) world \<Rightarrow> ('s, 'v, 'r, 'p) world" where
  "trace_append self e w =
     w\<lparr>executors := (executors w)(self := (executors w self)\<lparr>trace := trace (executors w self) @ [e]\<rparr>)\<rparr>"

text \<open>
  \<open>TracingExecutorValue(self, self._get_new_value_index(), target_val)\<close>: the index is
  allocated while the arguments of the constructor are evaluated.
\<close>

definition wrap ::
  "ref \<Rightarrow> ('s, 'r, 'p) ExecutorValue \<Rightarrow> ('s, 'v, 'r, 'p) world
   \<Rightarrow> ('s, 'r, 'p) TracingExecutorValue \<times> ('s, 'v, 'r, 'p) world" where
  "wrap self target_val w =
     (let (val_index, w') = get_new_value_index self w
      in (\<lparr>tev_owner = self, tev_index = val_index, tev_value = target_val\<rparr>, w'))"

text \<open>
  The methods of \<open>TracingExecutor\<close>.  Each one calls the target first; an exception of the
  target leaves the method before an index is allocated or an entry is appended.
\<close>

definition create_value ::
  "ref \<Rightarrow> 'v \<Rightarrow> Type option \<Rightarrow> ('s, 'v, 'r, 'p) world
   \<Rightarrow> (error + ('s, 'r, 'p) TracingExecutorValue) \<times> ('s, 'v, 'r, 'p) world" where
  "create_value self v type_spec w =
     (case ex_create_value (target (executors w self)) v type_spec (target_world w) of
        (Inl e, tw) \<Rightarrow> (Inl e, w\<lparr>target_world := tw\<rparr>)
      | (Inr target_val, tw) \<Rightarrow>
          (let (wrapped_val, w') = wrap self target_val (w\<lparr>target_world := tw\<rparr>)
           in (Inr wrapped_val,
               (case type_spec of
                  Some t \<Rightarrow>
                    trace_append self
                      [PyStr ''create_value'', PyValue v, PyType t, PyInt (tev_index wrapped_val)] w'
                | None \<Rightarrow>
                    trace_append self
                      [PyStr ''create_value'', PyValue v, PyInt (tev_index wrapped_val)] w'))))"

definition create_call ::
  "ref \<Rightarrow> ('s, 'r, 'p) TracingExecutorValue \<Rightarrow> ('s, 'r, 'p) TracingExecutorValue option
   \<Rightarrow> ('s, 'v, 'r, 'p) world
   \<Rightarrow> (error + ('s, 'r, 'p) TracingExecutorValue) \<times> ('s, 'v, 'r, 'p) world" where
  "create_call self fn arg w =
     (case arg of
        Some a \<Rightarrow>
          (case ex_create_call (target (executors w self)) (tev_value fn) (Some (tev_value a))
                  (target_world w) of
             (Inl e, tw) \<Rightarrow> (Inl e, w\<lparr>target_world := tw\<rparr>)
           | (Inr target_val, tw) \<Rightarrow>
               (let (wrapped_val, w') = wrap self target_val (w\<lparr>target_world := tw\<rparr>)
                in (Inr wrapped_val,
                    trace_append self
                      [PyStr ''create_call'', PyInt (tev_index fn), PyInt (tev_index a),
                       PyInt (tev_index wrapped_val)] w')))
      | None \<Rightarrow>
          (case ex_create_call (target (executors w self)) (tev_value fn) None
                  (target_world w) of
             (Inl e, tw) \<Rightarrow> (Inl e, w\<lparr>target_world := tw\<rparr>)
           | (Inr target_val, tw) \<Rightarrow>
               (let (wrapped_val, w') = wrap self target_val (w\<lparr>target_world := tw\<rparr>)
                in (Inr wrapped_val,
                    trace_append self
                      [PyStr ''create_call'', PyInt (tev_index fn),
                       PyInt (tev_index wrapped_val)] w'))))"

definition create_tuple ::
  "ref \<Rightarrow> ('s, 'r, 'p) TracingExecutorValue struct \<Rightarrow> ('s, 'v, 'r, 'p) world
   \<Rightarrow> (error + ('s, 'r, 'p) TracingExecutorValue) \<times> ('s, 'v, 'r, 'p) world" where
  "create_tuple self elements w =
     (case ex_create_tuple (target (executors w self)) (map_structure tev_value elements)
             (target_world w) of
        (Inl e, tw) \<Rightarrow> (Inl e, w\<lparr>target_world := tw\<rparr>)
      | (Inr target_val, tw) \<Rightarrow>
          (let (wrapped_val, w') = wrap self target_val (w\<lparr>target_world := tw\<rparr>)
           in (Inr wrapped_val,
               trace_append self
                 [PyStr ''create_tuple'', PyStruct (map_structure tev_index elements),
                  PyInt (tev_index wrapped_val)] w')))"

definition close ::
  "ref \<Rightarrow> ('s, 'v, 'r, 'p) world \<Rightarrow> (error + unit) \<times> ('s, 'v, 'r, 'p) world" where
  "close self w =
     (case ex_close (target (executors w self)) (target_world w) of
        (res, tw) \<Rightarrow> (res, w\<lparr>target_world := tw\<rparr>))"

definition selector_item :: "int option \<Rightarrow> string option \<Rightarrow> ('v, 'r) item" where
  "selector_item index name =
     (case index of
        Some i \<Rightarrow> PyInt i
      | None \<Rightarrow> (case name of Some n \<Rightarrow> PyStr n | None \<Rightarrow> PyNone))"

definition create_selection ::
  "ref \<Rightarrow> ('s, 'r, 'p) TracingExecutorValue \<Rightarrow> int option \<Rightarrow> string option
   \<Rightarrow> ('s, 'v, 'r, 'p) world
   \<Rightarrow> (error + ('s, 'r, 'p) TracingExecutorValue) \<times> ('s, 'v, 'r, 'p) world" where
  "create_selection self source index name w =
     (case ex_create_selection (target (executors w self)) (tev_value source) index name
             (target_world w) of
        (Inl e, tw) \<Rightarrow> (Inl e, w\<lparr>target_world := tw\<rparr>)
      | (Inr target_val, tw) \<Rightarrow>
          (let (wrapped_val, w') = wrap self target_val (w\<lparr>target_world := tw\<rparr>)
           in (Inr wrapped_val,
               trace_append self
                 [PyStr ''create_selection'', PyInt (tev_index source),
                  selector_item index name, PyInt (tev_index wrapped_val)] w')))"

text \<open>The property \<open>type_signature\<close> and the method \<open>compute\<close> of \<open>TracingExecutorValue\<close>.\<close>

definition type_signature :: "('s, 'r, 'p) TracingExecutorValue \<Rightarrow> Type" where
  "type_signature h = ev_type_signature (tev_value h)"

definition compute ::
  "('s, 'r, 'p) TracingExecutorValue \<Rightarrow> ('s, 'v, 'r, 'p) world
   \<Rightarrow> (error + 'r) \<times> ('s, 'v, 'r, 'p) world" where
  "compute h w =
     (case ev_compute (tev_value h) (target_world w) of
        (Inl e, tw) \<Rightarrow> (Inl e, w\<lparr>target_world := tw\<rparr>)
      | (Inr result, tw) \<Rightarrow>
          (Inr result,
           trace_append (tev_owner h) [PyStr ''compute'', PyInt (tev_index h), PyResult result]
             (w\<lparr>target_world := tw\<rparr>)))"

subsection \<open>Calls in flight\<close>

text \<open>
  The operations a client can call, and what a call gives back: a handle, the result of
  \<open>compute\<close>, nothing (\<open>close\<close>), or an exception.  The handles passed to a call are part of
  the operation, so any handle may be passed to any executor, as a client can.
\<close>

datatype ('s, 'v, 'r, 'p) operation =
    Create_value ref 'v "Type option"
  | Create_call ref "('s, 'r, 'p) TracingExecutorValue" "('s, 'r, 'p) TracingExecutorValue option"
  | Create_tuple ref "('s, 'r, 'p) TracingExecutorValue struct"
  | Create_selection ref "('s, 'r, 'p) TracingExecutorValue" "int option" "string option"
  | Compute "('s, 'r, 'p) TracingExecutorValue"
  | Close ref

datatype ('s, 'r, 'p) outcome =
    Returned "('s, 'r, 'p) TracingExecutorValue"
  | Computed 'r
  | Closed
  | Raised error

definition returned ::
  "(error + ('s, 'r, 'p) TracingExecutorValue) \<times> 'w \<Rightarrow> ('s, 'r, 'p) outcome \<times> 'w" where
  "returned res = (case res of (Inl e, w) \<Rightarrow> (Raised e, w) | (Inr h, w) \<Rightarrow> (Returned h, w))"

text \<open>
  \<open>perform\<close> is the step in which a call returns: the awaited call of the target acts and
  returns, and the rest of the method runs.
\<close>

fun perform ::
  "('s, 'v, 'r, 'p) operation \<Rightarrow> ('s, 'v, 'r, 'p) world
   \<Rightarrow> ('s, 'r, 'p) outcome \<times> ('s, 'v, 'r, 'p) world" where
  "perform (Create_value self v type_spec) w = returned (create_value self v type_spec w)"
| "perform (Create_call self fn arg) w = returned (create_call self fn arg w)"
| "perform (Create_tuple self elements) w = returned (create_tuple self elements w)"
| "perform (Create_selection self source index name) w =
     returned (create_selection self source index name w)"
| "perform (Compute h) w =
     (case compute h w of (Inl e, w') \<Rightarrow> (Raised e, w') | (Inr r, w') \<Rightarrow> (Computed r, w'))"
| "perform (Close self) w =
     (case close self w of (Inl e, w') \<Rightarrow> (Raised e, w') | (Inr u, w') \<Rightarrow> (Closed, w'))"

text \<open>
  \<open>create_value\<close>, \<open>create_call\<close>, \<open>create_tuple\<close>, \<open>create_selection\<close> and \<open>compute\<close> are
  \<open>async\<close>: each awaits the call of the target and allocates the index and appends the entry
  only afterwards, so a client may have several calls in flight, and they need not return in
  the order in which they were issued.  \<open>close\<close> is an ordinary method and is over when the
  call is made.  What happens is a list of events: a call is issued and gets the next call
  number, or the call with a given number returns.  A call in flight has not acted yet; it
  acts, in one step, when it returns.  An event that returns a call which is not in flight
  does not happen.  The state keeps the store, the operations issued so far in the order of
  issue, and the calls that have returned, with their outcomes, in the order of return.
\<close>

datatype ('s, 'v, 'r, 'p) event =
    Call "('s, 'v, 'r, 'p) operation"
  | Return nat

record ('s, 'v, 'r, 'p) scheduler =
  current :: "('s, 'v, 'r, 'p) world"
  calls :: "('s, 'v, 'r, 'p) operation list"
  returns :: "(nat \<times> ('s, 'v, 'r, 'p) operation \<times> ('s, 'r, 'p) outcome) list"

definition start :: "('s, 'v, 'r, 'p) world \<Rightarrow> ('s, 'v, 'r, 'p) scheduler" where
  "start w = \<lparr>current = w, calls = [], returns = []\<rparr>"

definition in_flight :: "('s, 'v, 'r, 'p) scheduler \<Rightarrow> nat \<Rightarrow> bool" where
  "in_flight st k = (k < length (calls st) \<and> k \<notin> set (map fst (returns st)))"

definition return_call ::
  "nat \<Rightarrow> ('s, 'v, 'r, 'p) scheduler \<Rightarrow> ('s, 'v, 'r, 'p) scheduler" where
  "return_call k st =
     (case perform (calls st ! k) (current st) of
        (out, w') \<Rightarrow> st\<lparr>current := w', returns := returns st @ [(k, calls st ! k, out)]\<rparr>)"

fun synchronous :: "('s, 'v, 'r, 'p) operation \<Rightarrow> bool" where
  "synchronous (Close self) = True"
| "synchronous opn = False"

fun step ::
  "('s, 'v, 'r, 'p) event \<Rightarrow> ('s, 'v, 'r, 'p) scheduler \<Rightarrow> ('s, 'v, 'r, 'p) scheduler" where
  "step (Call opn) st =
     (if synchronous opn
      then return_call (length (calls st)) (st\<lparr>calls := calls st @ [opn]\<rparr>)
      else st\<lparr>calls := calls st @ [opn]\<rparr>)"
| "step (Return k) st = (if in_flight st k then return_call k st else st)"

fun execute ::
  "('s, 'v, 'r, 'p) event list \<Rightarrow> ('s, 'v, 'r, 'p) scheduler \<Rightarrow> ('s, 'v, 'r, 'p) scheduler" where
  "execute [] st = st"
| "execute (e # es) st = execute es (step e st)"

text \<open>
  The calls that have returned, with their outcomes: \<open>history\<close> lists them in the order in
  which they returned, \<open>call_order\<close> in the order in which they were issued.
\<close>

definition history ::
  "('s, 'v, 'r, 'p) scheduler \<Rightarrow> (('s, 'v, 'r, 'p) operation \<times> ('s, 'r, 'p) outcome) list" where
  "history st = map snd (returns st)"

definition outcome_of ::
  "('s, 'v, 'r, 'p) scheduler \<Rightarrow> nat \<Rightarrow> ('s, 'r, 'p) outcome option" where
  "outcome_of st k = map_option snd (map_of (returns st) k)"

definition call_order ::
  "('s, 'v, 'r, 'p) scheduler \<Rightarrow> (('s, 'v, 'r, 'p) operation \<times> ('s, 'r, 'p) outcome) list" where
  "call_order st =
     concat (map (\<lambda>k. case outcome_of st k of Some out \<Rightarrow> [(calls st ! k, out)] | None \<Rightarrow> [])
                 [0..<length (calls st)])"

text \<open>
  The executor through which a handle-producing operation is issued, and the indices of the
  handles that the operations issued through one executor returned, in the order of the
  given list of calls and outcomes.
\<close>

fun issued_through :: "('s, 'v, 'r, 'p) operation \<Rightarrow> ref option" where
  "issued_through (Create_value self v type_spec) = Some self"
| "issued_through (Create_call self fn arg) = Some self"
| "issued_through (Create_tuple self elements) = Some self"
| "issued_through (Create_selection self source index name) = Some self"
| "issued_through (Compute h) = None"
| "issued_through (Close self) = None"

fun output_index :: "ref \<Rightarrow> ('s, 'v, 'r, 'p) operation \<times> ('s, 'r, 'p) outcome \<Rightarrow> int list" where
  "output_index self (opn, Returned h) = (if issued_through opn = Some self then [tev_index h] else [])"
| "output_index self (opn, out) = []"

definition output_indices ::
  "ref \<Rightarrow> (('s, 'v, 'r, 'p) operation \<times> ('s, 'r, 'p) outcome) list \<Rightarrow> int list" where
  "output_indices self log = concat (map (output_index self) log)"

text \<open>
  The entries that one call and its outcome contribute to the trace of executor \<open>self\<close>, in
  the words of section 4.2 of the specification: for an operation that returned a handle,
  the operation name, the indices of the input handles (or the literal value and type for
  \<open>create_value\<close>) and the output index; for a \<open>compute\<close> that returned, the handle's index
  and the result.  A call that raised and a call of \<open>close\<close> contribute nothing.  This
  definition is written from the specification; the code is compared with it below.
\<close>

fun recorded ::
  "ref \<Rightarrow> ('s, 'v, 'r, 'p) operation \<times> ('s, 'r, 'p) outcome \<Rightarrow> ('v, 'r) entry list" where
  "recorded self (Create_value e v (Some t), Returned h) =
     (if e = self then [[PyStr ''create_value'', PyValue v, PyType t, PyInt (tev_index h)]] else [])"
| "recorded self (Create_value e v None, Returned h) =
     (if e = self then [[PyStr ''create_value'', PyValue v, PyInt (tev_index h)]] else [])"
| "recorded self (Create_call e fn (Some a), Returned h) =
     (if e = self
      then [[PyStr ''create_call'', PyInt (tev_index fn), PyInt (tev_index a), PyInt (tev_index h)]]
      else [])"
| "recorded self (Create_call e fn None, Returned h) =
     (if e = self then [[PyStr ''create_call'', PyInt (tev_index fn), PyInt (tev_index h)]] else [])"
| "recorded self (Create_tuple e elements, Returned h) =
     (if e = self
      then [[PyStr ''create_tuple'', PyStruct (map_structure tev_index elements), PyInt (tev_index h)]]
      else [])"
| "recorded self (Create_selection e source index name, Returned h) =
     (if e = self
      then [[PyStr ''create_selection'', PyInt (tev_index source),
             (case index of
                Some i \<Rightarrow> PyInt i
              | None \<Rightarrow> (case name of Some n \<Rightarrow> PyStr n | None \<Rightarrow> PyNone)),
             PyInt (tev_index h)]]
      else [])"
| "recorded self (Compute h, Computed r) =
     (if tev_owner h = self then [[PyStr ''compute'', PyInt (tev_index h), PyResult r]] else [])"
| "recorded self (opn, out) = []"

text \<open>
  The call graph read off a trace: every entry gives a node with the operation name, the
  indices of the handles that went in and the index of the handle that came out.  Only the
  name and the indices of an entry are read.  \<open>call_graph\<close> is the same graph taken from the
  calls themselves.
\<close>

primrec leaves :: "'a struct \<Rightarrow> 'a list" where
  "leaves (Leaf a) = [a]"
| "leaves (Struct elems) = concat (map snd (map (map_prod id leaves) elems))"

type_synonym node = "string \<times> int list \<times> int option"

fun item_indices :: "('v, 'r) item \<Rightarrow> int list" where
  "item_indices (PyInt i) = [i]"
| "item_indices (PyStruct st) = leaves st"
| "item_indices other = []"

definition entry_name :: "('v, 'r) entry \<Rightarrow> string" where
  "entry_name e = (case e of PyStr n # args \<Rightarrow> n | _ \<Rightarrow> [])"

definition entry_inputs :: "('v, 'r) entry \<Rightarrow> int list" where
  "entry_inputs e =
     (if entry_name e = ''compute'' \<or> entry_name e = ''create_selection''
      then concat (map item_indices (take 1 (tl e)))
      else concat (map item_indices (butlast (tl e))))"

definition entry_output :: "('v, 'r) entry \<Rightarrow> int option" where
  "entry_output e =
     (if entry_name e = ''compute'' \<or> e = [] then None
      else (case last e of PyInt i \<Rightarrow> Some i | _ \<Rightarrow> None))"

definition entry_node :: "('v, 'r) entry \<Rightarrow> node" where
  "entry_node e = (entry_name e, entry_inputs e, entry_output e)"

fun call_graph :: "ref \<Rightarrow> ('s, 'v, 'r, 'p) operation \<times> ('s, 'r, 'p) outcome \<Rightarrow> node list" where
  "call_graph self (Create_value e v type_spec, Returned h) =
     (if e = self then [(''create_value'', [], Some (tev_index h))] else [])"
| "call_graph self (Create_call e fn arg, Returned h) =
     (if e = self
      then [(''create_call'',
             tev_index fn # (case arg of Some a \<Rightarrow> [tev_index a] | None \<Rightarrow> []),
             Some (tev_index h))]
      else [])"
| "call_graph self (Create_tuple e elements, Returned h) =
     (if e = self
      then [(''create_tuple'', map tev_index (leaves elements), Some (tev_index h))]
      else [])"
| "call_graph self (Create_selection e source index name, Returned h) =
     (if e = self then [(''create_selection'', [tev_index source], Some (tev_index h))] else [])"
| "call_graph self (Compute h, Computed r) =
     (if tev_owner h = self then [(''compute'', [tev_index h], None)] else [])"
| "call_graph self (opn, out) = []"

text \<open>
  The calls that leave an entry in the trace of executor \<open>self\<close>: an operation issued through
  \<open>self\<close> that returned a handle, and a \<open>compute\<close> that returned, on a handle owned by
  \<open>self\<close>.
\<close>

fun traced :: "ref \<Rightarrow> ('s, 'v, 'r, 'p) operation \<times> ('s, 'r, 'p) outcome \<Rightarrow> bool" where
  "traced self (Compute h, Computed r) = (tev_owner h = self)"
| "traced self (opn, Returned h) = (issued_through opn = Some self)"
| "traced self (opn, out) = False"

section \<open>The executor contract\<close>

text \<open>
  Modelled from the spec: the executors that a tracing executor wraps (\<open>executor_base\<close>,
  \<open>executor_stacks\<close>, \<open>reference_executor\<close>) are not among the sources.  Section 4.1 gives
  their contract: \<open>create_value\<close> fails with \<open>TypeMismatchError\<close> if a type is supplied and
  does not match the inferred type of the value; \<open>create_call\<close> fails with
  \<open>NotCallableError\<close> if the function handle's type is not a function type and with
  \<open>ArityError\<close> if an argument is required or forbidden but omitted or supplied;
  \<open>create_tuple\<close> builds a tuple-typed handle keeping order and names; \<open>create_selection\<close>
  takes exactly one selector and fails with \<open>SelectionError\<close> if the source is not
  tuple-typed, if both or neither selector is given, or if the index or name does not exist;
  \<open>close\<close> is idempotent, and after it all other operations fail with
  \<open>ClosedExecutorError\<close>.  The state of such an executor is whether it has been closed.
  What a backend does with the embedded values is opaque to the contract and is a parameter.
  An index is in range from 0 up to the number of elements; a name selects the first element
  that carries it.  A value does not record which executor embedded it, so
  \<open>ForeignHandleError\<close> is never raised here.
\<close>

record executor_state =
  closed :: bool

record ('v, 'r, 'p) backend =
  infer_type :: "'v \<Rightarrow> Type"
  embed :: "'v \<Rightarrow> 'p"
  invoke :: "'p \<Rightarrow> 'p option \<Rightarrow> 'p"
  pack :: "(string option \<times> 'p) list \<Rightarrow> 'p"
  project :: "'p \<Rightarrow> nat \<Rightarrow> 'p"
  materialize :: "'p \<Rightarrow> 'r"

definition spec_compute ::
  "('v, 'r, 'p) backend \<Rightarrow> 'p \<Rightarrow> executor_state \<Rightarrow> (error + 'r) \<times> executor_state" where
  "spec_compute b p s =
     (if closed s then (Inl ClosedExecutorError, s) else (Inr (materialize b p), s))"

definition spec_value ::
  "('v, 'r, 'p) backend \<Rightarrow> Type \<Rightarrow> 'p \<Rightarrow> (executor_state, 'r, 'p) ExecutorValue" where
  "spec_value b t p = \<lparr>ev_compute = spec_compute b p, ev_type_signature = t, ev_embedded = p\<rparr>"

definition spec_create_value ::
  "('v, 'r, 'p) backend \<Rightarrow> 'v \<Rightarrow> Type option \<Rightarrow> executor_state
   \<Rightarrow> (error + (executor_state, 'r, 'p) ExecutorValue) \<times> executor_state" where
  "spec_create_value b v type_spec s =
     (if closed s then (Inl ClosedExecutorError, s)
      else (case type_spec of
              Some t \<Rightarrow>
                (if t = infer_type b v then (Inr (spec_value b t (embed b v)), s)
                 else (Inl TypeMismatchError, s))
            | None \<Rightarrow> (Inr (spec_value b (infer_type b v) (embed b v)), s)))"

definition spec_create_call ::
  "('v, 'r, 'p) backend \<Rightarrow> (executor_state, 'r, 'p) ExecutorValue
   \<Rightarrow> (executor_state, 'r, 'p) ExecutorValue option \<Rightarrow> executor_state
   \<Rightarrow> (error + (executor_state, 'r, 'p) ExecutorValue) \<times> executor_state" where
  "spec_create_call b fn arg s =
     (if closed s then (Inl ClosedExecutorError, s)
      else (case ev_type_signature fn of
              FunctionType parameter_type result_type \<Rightarrow>
                (if (parameter_type = None) = (arg = None)
                 then (Inr (spec_value b result_type
                              (invoke b (ev_embedded fn) (map_option ev_embedded arg))), s)
                 else (Inl ArityError, s))
            | _ \<Rightarrow> (Inl NotCallableError, s)))"

primrec struct_type :: "('s, 'r, 'p) ExecutorValue struct \<Rightarrow> Type" where
  "struct_type (Leaf h) = ev_type_signature h"
| "struct_type (Struct elems) = NamedTupleType (map (map_prod id struct_type) elems)"

primrec struct_embedded ::
  "('v, 'r, 'p) backend \<Rightarrow> ('s, 'r, 'p) ExecutorValue struct \<Rightarrow> 'p" where
  "struct_embedded b (Leaf h) = ev_embedded h"
| "struct_embedded b (Struct elems) = pack b (map (map_prod id (struct_embedded b)) elems)"

definition spec_create_tuple ::
  "('v, 'r, 'p) backend \<Rightarrow> (executor_state, 'r, 'p) ExecutorValue struct \<Rightarrow> executor_state
   \<Rightarrow> (error + (executor_state, 'r, 'p) ExecutorValue) \<times> executor_state" where
  "spec_create_tuple b elements s =
     (if closed s then (Inl ClosedExecutorError, s)
      else (Inr (spec_value b (struct_type elements) (struct_embedded b elements)), s))"

fun position_of :: "string \<Rightarrow> (string option \<times> 'a) list \<Rightarrow> nat option" where
  "position_of n [] = None"
| "position_of n ((m, x) # elems) =
     (if m = Some n then Some 0 else map_option Suc (position_of n elems))"

definition spec_create_selection ::
  "('v, 'r, 'p) backend \<Rightarrow> (executor_state, 'r, 'p) ExecutorValue \<Rightarrow> int option
   \<Rightarrow> string option \<Rightarrow> executor_state
   \<Rightarrow> (error + (executor_state, 'r, 'p) ExecutorValue) \<times> executor_state" where
  "spec_create_selection b source index name s =
     (if closed s then (Inl ClosedExecutorError, s)
      else (case ev_type_signature source of
              NamedTupleType elems \<Rightarrow>
                (case (index, name) of
                   (Some i, None) \<Rightarrow>
                     (if 0 \<le> i \<and> i < int (length elems)
                      then (Inr (spec_value b (snd (elems ! nat i))
                                   (project b (ev_embedded source) (nat i))), s)
                      else (Inl SelectionError, s))
                 | (None, Some n) \<Rightarrow>
                     (case position_of n elems of
                        Some k \<Rightarrow>
                          (Inr (spec_value b (snd (elems ! k))
                                  (project b (ev_embedded source) k)), s)
                      | None \<Rightarrow> (Inl SelectionError, s))
                 | (Some i, Some n) \<Rightarrow> (Inl SelectionError, s)
                 | (None, None) \<Rightarrow> (Inl SelectionError, s))
            | _ \<Rightarrow> (Inl SelectionError, s)))"

definition spec_close :: "executor_state \<Rightarrow> (error + unit) \<times> executor_state" where
  "spec_close s = (Inr (), s\<lparr>closed := True\<rparr>)"

definition spec_executor ::
  "('v, 'r, 'p) backend \<Rightarrow> (executor_state, 'v, 'r, 'p) Executor" where
  "spec_executor b =
     \<lparr>ex_create_value = spec_create_value b,
      ex_create_call = spec_create_call b,
      ex_create_tuple = spec_create_tuple b,
      ex_create_selection = spec_create_selection b,
      ex_close = spec_close\<rparr>"

text \<open>
  Modelled from the spec: section 4.1 has two clauses for a faulty selection on an executor
  that has been closed (\<open>SelectionError\<close> and \<open>ClosedExecutorError\<close>) and does not say
  which is tested first; \<open>spec_create_selection\<close> tests for \<open>close\<close> first.  The selection
  contract of section 8 is stated for every call.  \<open>faulty_selection\<close> holds of the calls it
  rejects: the source is not tuple-typed, both selectors or neither are given, the index is
  out of range or the name does not exist.  \<open>selection_first_executor\<close> tests the selectors
  before anything else and is \<open>spec_executor\<close> otherwise.
\<close>

definition faulty_selection :: "Type \<Rightarrow> int option \<Rightarrow> string option \<Rightarrow> bool" where
  "faulty_selection t index name =
     (case t of
        NamedTupleType elems \<Rightarrow>
          (case (index, name) of
             (Some i, None) \<Rightarrow> i < 0 \<or> int (length elems) \<le> i
           | (None, Some n) \<Rightarrow> position_of n elems = None
           | (Some i, Some n) \<Rightarrow> True
           | (None, None) \<Rightarrow> True)
      | _ \<Rightarrow> True)"

definition selection_first_create_selection ::
  "('v, 'r, 'p) backend \<Rightarrow> (executor_state, 'r, 'p) ExecutorValue \<Rightarrow> int option
   \<Rightarrow> string option \<Rightarrow> executor_state
   \<Rightarrow> (error + (executor_state, 'r, 'p) ExecutorValue) \<times> executor_state" where
  "selection_first_create_selection b source index name s =
     (if faulty_selection (ev_type_signature source) index name then (Inl SelectionError, s)
      else spec_create_selection b source index name s)"

definition selection_first_executor ::
  "('v, 'r, 'p) backend \<Rightarrow> (executor_state, 'v, 'r, 'p) Executor" where
  "selection_first_executor b =
     (spec_executor b)\<lparr>ex_create_selection := selection_first_create_selection b\<rparr>"

text \<open>
  A small backend on which the definitions can be run: numbers, a function without
  parameter that returns a number, and the successor function on numbers.
\<close>

datatype demo_value = Number int | Thunk int | Successor

fun demo_infer_type :: "demo_value \<Rightarrow> Type" where
  "demo_infer_type (Number n) = TensorType DT_INT32 []"
| "demo_infer_type (Thunk n) = FunctionType None (TensorType DT_INT32 [])"
| "demo_infer_type Successor = FunctionType (Some (TensorType DT_INT32 [])) (TensorType DT_INT32 [])"

fun demo_invoke :: "demo_value struct \<Rightarrow> demo_value struct option \<Rightarrow> demo_value struct" where
  "demo_invoke (Leaf (Thunk n)) None = Leaf (Number n)"
| "demo_invoke (Leaf Successor) (Some (Leaf (Number n))) = Leaf (Number (n + 1))"
| "demo_invoke f a = f"

fun demo_project :: "demo_value struct \<Rightarrow> nat \<Rightarrow> demo_value struct" where
  "demo_project (Struct elems) k = (if k < length elems then snd (elems ! k) else Struct elems)"
| "demo_project (Leaf v) k = Leaf v"

definition demo_backend :: "(demo_value, demo_value struct, demo_value struct) backend" where
  "demo_backend =
     \<lparr>infer_type = demo_infer_type, embed = Leaf, invoke = demo_invoke, pack = Struct,
      project = demo_project, materialize = id\<rparr>"

definition demo_world ::
  "(executor_state, demo_value, demo_value struct, demo_value struct) world" where
  "demo_world =
     \<lparr>target_world = \<lparr>closed = False\<rparr>,
      executors = (\<lambda>r. TracingExecutor_init (spec_executor demo_backend))\<rparr>"


text \<open>
  Handles and types for the runs below; \<open>demo_handle i t p\<close> is the handle with index \<open>i\<close>
  that executor 0 returns for a value of type \<open>t\<close> embedding \<open>p\<close>.
\<close>

definition demo_handle ::
  "int \<Rightarrow> Type \<Rightarrow> demo_value struct \<Rightarrow> (executor_state, demo_value struct, demo_value struct) TracingExecutorValue" where
  "demo_handle i t p = \<lparr>tev_owner = 0, tev_index = i, tev_value = spec_value demo_backend t p\<rparr>"

definition int32 :: Type where
  "int32 = TensorType DT_INT32 []"

definition pair_type :: Type where
  "pair_type = NamedTupleType [(Some ''x'', int32), (None, int32)]"

definition pair_embedded :: "demo_value struct" where
  "pair_embedded = Struct [(Some ''x'', Leaf (Number 7)), (None, Leaf (Number 7))]"

text \<open>
  Two \<open>create_value\<close> calls in flight together on executor 0, the second returning first.
\<close>

definition overlapped_calls ::
  "(executor_state, demo_value, demo_value struct, demo_value struct) event list" where
  "overlapped_calls =
     [Call (Create_value 0 (Number 5) None),
      Call (Create_value 0 (Number 6) None),
      Return 1,
      Return 0]"

text \<open>
  Calls on two tracing executors (references 0 and 1), all in flight together and returning
  in another order; one of them declares a type that does not match.
\<close>

definition mixed_calls ::
  "(executor_state, demo_value, demo_value struct, demo_value struct) event list" where
  "mixed_calls =
     [Call (Create_value 0 (Number 5) None),
      Call (Create_value 1 (Number 6) None),
      Call (Create_value 0 (Number 5) (Some (TensorType DT_BOOL []))),
      Call (Create_value 0 (Thunk 7) None),
      Return 3,
      Return 1,
      Return 2,
      Return 0,
      Call (Close 0)]"

text \<open>
  A run in which every kind of operation returns once: a function is embedded and called,
  its result is put twice into a tuple, the element named \<open>x\<close> is selected and computed; the
  \<open>compute\<close> is in flight together with a selection that gives both selectors, which returns
  first; then \<open>close\<close>.  The handles passed to the later calls are the handles the earlier
  calls return.
\<close>

definition traced_calls ::
  "(executor_state, demo_value, demo_value struct, demo_value struct) event list" where
  "traced_calls =
     [Call (Create_value 0 (Thunk 7) None),
      Return 0,
      Call (Create_call 0 (demo_handle 1 (FunctionType None int32) (Leaf (Thunk 7))) None),
      Return 1,
      Call (Create_tuple 0 (Struct [(Some ''x'', Leaf (demo_handle 2 int32 (Leaf (Number 7)))),
                                    (None, Leaf (demo_handle 2 int32 (Leaf (Number 7))))])),
      Return 2,
      Call (Create_selection 0 (demo_handle 3 pair_type pair_embedded) None (Some ''x'')),
      Return 3,
      Call (Compute (demo_handle 4 int32 (Leaf (Number 7)))),
      Call (Create_selection 0 (demo_handle 3 pair_type pair_embedded) (Some 0) (Some ''x'')),
      Return 5,
      Return 4,
      Call (Close 0)]"

text \<open>A \<open>create_value\<close> whose declared type does not match, awaited, and then a \<open>close\<close>.\<close>

definition unrecorded_calls ::
  "(executor_state, demo_value, demo_value struct, demo_value struct) event list" where
  "unrecorded_calls =
     [Call (Create_value 0 (Number 5) (Some (TensorType DT_BOOL []))),
      Return 0,
      Call (Close 0)]"

section \<open>Computations\<close>

text \<open>
  The protocol messages that \<open>executor_test_utils.py\<close> builds: a computation carries its
  serialized type and one variant (a reference, a lambda or a TensorFlow fragment); a
  TensorFlow fragment carries the packed graph and the optional bindings of its parameter and
  result.  The packed graph is opaque.
\<close>

datatype pb_Binding =
    pb_tensor_binding string
  | pb_sequence_binding string
  | pb_tuple_binding "pb_Binding list"

record 'g pb_TensorFlow =
  graph_def :: 'g
  parameter :: "pb_Binding option"
  result :: "pb_Binding option"

datatype 'g pb_Computation =
    pb_Computation (computation_type: pb_Type) (computation: "'g pb_computation")
and 'g pb_computation =
    pb_reference string
  | pb_lambda string "'g pb_Computation"
  | pb_tensorflow "'g pb_TensorFlow"

text \<open>
  Modelled from the spec: \<open>tensorflow_utils.capture_result_from_graph\<close> is not among the
  sources.  Section 6: a binding describes which named tensors or iterator handles correspond
  to the declared result type.  The result of a graph is a tensor, a dataset or a list of
  results; the empty list \<open>[]\<close> that \<open>create_dummy_empty_tensorflow_computation\<close> passes is a
  list with no elements, whose type is the empty tuple \<open><>\<close>.
\<close>

datatype graph_result =
    Tensor_result string dtype "nat option list"
  | Dataset_result string Type
  | List_result "(string option \<times> graph_result) list"

primrec capture_result_from_graph :: "graph_result \<Rightarrow> Type \<times> pb_Binding" where
  "capture_result_from_graph (Tensor_result tensor_name d shape) =
     (TensorType d shape, pb_tensor_binding tensor_name)"
| "capture_result_from_graph (Dataset_result handle_name t) =
     (SequenceType t, pb_sequence_binding handle_name)"
| "capture_result_from_graph (List_result elems) =
     (NamedTupleType (map (map_prod id fst) (map (map_prod id capture_result_from_graph) elems)),
      pb_tuple_binding (map (snd \<circ> snd) (map (map_prod id capture_result_from_graph) elems)))"

text \<open>
  \<open>create_dummy_empty_tensorflow_computation\<close>; the argument is the packed definition of the
  empty graph, \<open>serialization_utils.pack_graph_def(graph.as_graph_def())\<close>.
\<close>

definition create_dummy_empty_tensorflow_computation :: "'g \<Rightarrow> 'g pb_Computation" where
  "create_dummy_empty_tensorflow_computation packed_graph_def =
     (let (result_type, result_binding) = capture_result_from_graph (List_result []);
          function_type = FunctionType None result_type;
          type_signature = serialize_type function_type;
          tensorflow = \<lparr>graph_def = packed_graph_def, parameter = None,
                        result = Some result_binding\<rparr>
      in pb_Computation type_signature (pb_tensorflow tensorflow))"

section \<open>Serialization round trip\<close>

lemma collect_map:
  "\<forall>e \<in> set elems. F e = (fst e, Inr (snd e)) \<Longrightarrow> collect (map F elems) = Inr elems"
proof (induction elems)
  case Nil
  then show ?case by simp
next
  case (Cons e elems)
  have "F e = (fst e, Inr (snd e))" using Cons.prems by simp
  moreover have "collect (map F elems) = Inr elems"
    by (rule Cons.IH) (use Cons.prems in simp)
  ultimately show ?case by simp
qed

lemma dim_of_size_dim_size: "dim_of_size (dim_size d) = d"
  by (cases d) (auto simp: dim_of_size_def dim_size_def)

lemma dim_size_ge: "\<not> dim_size d < - 1"
  by (cases d) (auto simp: dim_size_def)

lemma deserialize_serialize: "deserialize_type (serialize_type t) = Inr t"
proof (induction t)
  case (TensorType d shape)
  then show ?case by (simp add: list_ex_iff dim_size_ge dim_of_size_dim_size map_idI)
next
  case (SequenceType t)
  then show ?case by simp
next
  case (NamedTupleType elems)
  have "collect (map (map_prod id deserialize_type \<circ> map_prod id serialize_type) elems) = Inr elems"
  proof (rule collect_map, rule ballI)
    fix e assume "e \<in> set elems"
    then have "deserialize_type (serialize_type (snd e)) = Inr (snd e)"
      using NamedTupleType by (cases e) (auto simp: snds.simps)
    then show "(map_prod id deserialize_type \<circ> map_prod id serialize_type) e = (fst e, Inr (snd e))"
      by (cases e) simp
  qed
  then show ?case by (simp only: serialize_type.simps deserialize_type.simps map_map sum.case)
next
  case (FunctionType p r)
  then show ?case by (cases p) auto
qed

lemma dim_accepts_refl: "dim_accepts d d"
  by (cases d) auto

lemma assignable_refl_aux:
  "size t \<le> k \<Longrightarrow> is_assignable_from t t"
  "size_list (size_prod (\<lambda>_. 0) size) es \<le> k \<Longrightarrow> all_assignable_from es es"
proof (induction k arbitrary: t es)
  case 0
  { case 1 then show ?case by (cases t) (auto simp: list_all2_same dim_accepts_refl) }
  { case 2 then show ?case by (cases es) auto }
next
  case (Suc k)
  { case 1 then show ?case using Suc.IH
      by (cases t) (auto simp: list_all2_same dim_accepts_refl split: option.splits) }
  { case 2 then show ?case using Suc.IH
      by (cases es) auto }
qed

lemma is_assignable_from_refl: "is_assignable_from t t"
  by (rule assignable_refl_aux(1) [OF order_refl])

text \<open>
  C1.  For every type \<open>t\<close>, deserializing the serialization of \<open>t\<close> succeeds and gives a type
  \<open>t2\<close> that is structurally equal to \<open>t\<close> (same shape, dtype, names and element order),
  that serializes to the same message, and that is assignable from \<open>t\<close> and to \<open>t\<close>.  These
  are the four assertions of \<open>_serialize_deserialize_roundtrip_test\<close>.
\<close>

theorem serialize_deserialize_roundtrip:
  "\<exists>t2. deserialize_type (serialize_type t) = Inr t2 \<and> t2 = t
        \<and> serialize_type t2 = serialize_type t
        \<and> is_assignable_from t t2 \<and> is_assignable_from t2 t"
  by (simp add: deserialize_serialize is_assignable_from_refl)

theorem serialize_deserialize_roundtrip_witness:
  "\<exists>t2. deserialize_type (serialize_type
           (NamedTupleType [(Some ''x'', TensorType DT_INT32 [None, Some 10]),
                            (None, FunctionType None (SequenceType (TensorType DT_BOOL [])))])) = Inr t2
        \<and> t2 = NamedTupleType [(Some ''x'', TensorType DT_INT32 [None, Some 10]),
                            (None, FunctionType None (SequenceType (TensorType DT_BOOL [])))]
        \<and> serialize_type t2 = pb_tuple [(Some ''x'', pb_tensor DT_INT32 [- 1, 10]),
                            (None, pb_function None (pb_sequence (pb_tensor DT_BOOL [])))]
        \<and> is_assignable_from (NamedTupleType [(Some ''x'', TensorType DT_INT32 [None, Some 10]),
                            (None, FunctionType None (SequenceType (TensorType DT_BOOL [])))]) t2
        \<and> is_assignable_from t2 (NamedTupleType [(Some ''x'', TensorType DT_INT32 [None, Some 10]),
                            (None, FunctionType None (SequenceType (TensorType DT_BOOL [])))])"
  using serialize_deserialize_roundtrip
    [of "NamedTupleType [(Some ''x'', TensorType DT_INT32 [None, Some 10]),
                         (None, FunctionType None (SequenceType (TensorType DT_BOOL [])))]"]
  by (simp add: dim_size_def)

text \<open>
  C7.  The serialization of a tensor type is a tensor leaf with the same dtype and one size
  per dimension of the shape, in order: the size of a defined dimension is the dimension, the
  size of an undefined dimension is \<open>-1\<close>.
\<close>

theorem serialize_tensor_leaf:
  "\<exists>dims. serialize_type (TensorType d shape) = pb_tensor d dims
        \<and> length dims = length shape
        \<and> (\<forall>i < length shape.
              dims ! i = (case shape ! i of None \<Rightarrow> - 1 | Some n \<Rightarrow> int n))"
  by (simp add: dim_size_def)

theorem serialize_tensor_leaf_witness:
  "\<exists>dims. serialize_type (TensorType DT_INT32 [None, Some 20]) = pb_tensor DT_INT32 dims
        \<and> length dims = 2 \<and> dims ! 0 = - 1 \<and> dims ! 1 = 20"
  using serialize_tensor_leaf [of DT_INT32 "[None, Some 20]"]
  by (auto simp: dim_size_def)

section \<open>The tracing executor: single operations\<close>

lemmas tracing_defs =
  create_value_def create_call_def create_tuple_def create_selection_def compute_def close_def
  wrap_def get_new_value_index_def trace_append_def returned_def selector_item_def Let_def
lemmas spec_defs =
  spec_executor_def spec_create_value_def spec_create_call_def spec_create_tuple_def
  spec_create_selection_def spec_close_def spec_compute_def spec_value_def

lemmas demo_defs = demo_world_def demo_backend_def TracingExecutor_init_def

lemmas demo_data_defs =
  demo_handle_def int32_def pair_type_def pair_embedded_def

text \<open>
  C10.  \<open>close\<close> returns what the target's \<open>close\<close> returns and leaves the target in the state
  the target's \<open>close\<close> produced; every tracing executor of the store is unchanged, in
  particular no entry is appended to the trace and the index counter is not advanced.
\<close>

theorem close_leaves_wrapper_unchanged:
  "fst (close self w) = fst (ex_close (target (executors w self)) (target_world w))
   \<and> target_world (snd (close self w)) = snd (ex_close (target (executors w self)) (target_world w))
   \<and> executors (snd (close self w)) = executors w
   \<and> trace (executors (snd (close self w)) self) = trace (executors w self)
   \<and> last_used_index (executors (snd (close self w)) self) = last_used_index (executors w self)"
  by (simp add: close_def split: prod.splits)

theorem close_leaves_wrapper_unchanged_witness:
  "fst (close 0 demo_world) = Inr ()
   \<and> closed (target_world (snd (close 0 demo_world)))
   \<and> executors (snd (close 0 demo_world)) = executors demo_world
   \<and> trace (executors (snd (close 0 demo_world)) 0) = []
   \<and> last_used_index (executors (snd (close 0 demo_world)) 0) = 0"
  using close_leaves_wrapper_unchanged [of 0 demo_world]
  by (simp add: demo_defs spec_defs)

text \<open>
  C9.  A \<open>create_value\<close> that returns appends exactly one entry: the 4-tuple
  \<open>('create_value', value, type_spec, index)\<close> when a type is supplied, and the 3-tuple
  \<open>('create_value', value, index)\<close>, in which no type appears, when it is not; the index is
  that of the returned handle.
\<close>

theorem create_value_entry:
  assumes "create_value self v type_spec w = (Inr h, w')"
  shows "\<exists>entry. trace (executors w' self) = trace (executors w self) @ [entry]
           \<and> (case type_spec of
                 Some t \<Rightarrow> entry = [PyStr ''create_value'', PyValue v, PyType t, PyInt (tev_index h)]
               | None \<Rightarrow> entry = [PyStr ''create_value'', PyValue v, PyInt (tev_index h)]
                          \<and> (\<forall>t. PyType t \<notin> set entry))"
  using assms
  by (auto simp: create_value_def wrap_def get_new_value_index_def trace_append_def Let_def
           split: prod.splits sum.splits option.splits)

theorem create_value_entry_witness:
  "create_value 0 (Number 5) (Some int32) demo_world =
     (Inr (demo_handle 1 int32 (Leaf (Number 5))),
      snd (create_value 0 (Number 5) (Some int32) demo_world))
   \<and> trace (executors (snd (create_value 0 (Number 5) (Some int32) demo_world)) 0) =
       [[PyStr ''create_value'', PyValue (Number 5), PyType int32, PyInt 1]]
   \<and> create_value 0 (Number 5) None demo_world =
     (Inr (demo_handle 1 int32 (Leaf (Number 5))),
      snd (create_value 0 (Number 5) None demo_world))
   \<and> trace (executors (snd (create_value 0 (Number 5) None demo_world)) 0) =
       [[PyStr ''create_value'', PyValue (Number 5), PyInt 1]]"
proof -
  have a: "create_value 0 (Number 5) (Some int32) demo_world =
     (Inr (demo_handle 1 int32 (Leaf (Number 5))),
      snd (create_value 0 (Number 5) (Some int32) demo_world))"
    by (simp add: demo_data_defs tracing_defs spec_defs demo_defs)
  have b: "create_value 0 (Number 5) None demo_world =
     (Inr (demo_handle 1 int32 (Leaf (Number 5))),
      snd (create_value 0 (Number 5) None demo_world))"
    by (simp add: demo_data_defs tracing_defs spec_defs demo_defs)
  have t0: "trace (executors demo_world 0) = []"
    by (simp add: demo_defs)
  have i1: "tev_index (demo_handle 1 int32 (Leaf (Number 5))) = 1"
    by (simp add: demo_handle_def)
  from create_value_entry [OF a] create_value_entry [OF b] a b show ?thesis
    by (simp add: t0 i1)
qed

text \<open>
  C4.  \<open>compute\<close> on a wrapped handle returns what the wrapped value's \<open>compute\<close> returns and
  leaves the target in the state that call produced.  When the call returns \<open>r\<close>, the entry
  \<open>('compute', index, r)\<close> is appended to the trace of the handle's owner; when it raises,
  nothing is appended, so the entry is written after the delegation.  The index counter of the
  owner and every other tracing executor are unchanged.
\<close>

theorem compute_delegates_then_records:
  assumes "ev_compute (tev_value h) (target_world w) = (res, tw)"
    and "compute h w = (res', w')"
  shows "res' = res \<and> target_world w' = tw
     \<and> trace (executors w' (tev_owner h)) =
         trace (executors w (tev_owner h)) @
           (case res of
              Inr r \<Rightarrow> [[PyStr ''compute'', PyInt (tev_index h), PyResult r]]
            | Inl e \<Rightarrow> [])
     \<and> last_used_index (executors w' (tev_owner h)) = last_used_index (executors w (tev_owner h))
     \<and> (\<forall>e. e \<noteq> tev_owner h \<longrightarrow> executors w' e = executors w e)"
  using assms
  by (auto simp: compute_def trace_append_def split: sum.splits)

theorem compute_delegates_then_records_witness:
  "ev_compute (tev_value (demo_handle 4 int32 (Leaf (Number 7)))) (target_world demo_world) =
     (Inr (Leaf (Number 7)), \<lparr>closed = False\<rparr>)
   \<and> fst (compute (demo_handle 4 int32 (Leaf (Number 7))) demo_world) = Inr (Leaf (Number 7))
   \<and> trace (executors (snd (compute (demo_handle 4 int32 (Leaf (Number 7))) demo_world)) 0) =
       [[PyStr ''compute'', PyInt 4, PyResult (Leaf (Number 7))]]
   \<and> ev_compute (tev_value (demo_handle 4 int32 (Leaf (Number 7))))
        (target_world (snd (close 0 demo_world))) =
     (Inl ClosedExecutorError, \<lparr>closed = True\<rparr>)
   \<and> fst (compute (demo_handle 4 int32 (Leaf (Number 7))) (snd (close 0 demo_world))) =
       Inl ClosedExecutorError
   \<and> trace (executors (snd (compute (demo_handle 4 int32 (Leaf (Number 7)))
        (snd (close 0 demo_world)))) 0) = []"
proof -
  have a: "ev_compute (tev_value (demo_handle 4 int32 (Leaf (Number 7)))) (target_world demo_world) =
     (Inr (Leaf (Number 7)), \<lparr>closed = False\<rparr>)"
    by (simp add: demo_data_defs spec_defs demo_defs)
  have b: "ev_compute (tev_value (demo_handle 4 int32 (Leaf (Number 7))))
        (target_world (snd (close 0 demo_world))) =
     (Inl ClosedExecutorError, \<lparr>closed = True\<rparr>)"
    by (simp add: demo_data_defs tracing_defs spec_defs demo_defs)
  have t0: "trace (executors demo_world 0) = []"
    by (simp add: demo_defs)
  have t1: "trace (executors (snd (close 0 demo_world)) 0) = []"
    by (simp add: demo_defs close_def split: prod.splits)
  have o: "tev_owner (demo_handle 4 int32 (Leaf (Number 7))) = 0"
    and i: "tev_index (demo_handle 4 int32 (Leaf (Number 7))) = 4"
    by (simp_all add: demo_handle_def)
  from compute_delegates_then_records [OF a surjective_pairing]
    compute_delegates_then_records [OF b surjective_pairing] a b
  show ?thesis
    by (simp add: t0 t1 o i)
qed

section \<open>The tracing executor: calls in flight\<close>

lemmas scheduler_defs =
  start_def in_flight_def return_call_def history_def outcome_of_def call_order_def

lemmas demo_calls_defs =
  overlapped_calls_def mixed_calls_def traced_calls_def unrecorded_calls_def

lemma perform_last_used_index:
  assumes "perform opn w = (out, w')"
  shows "last_used_index (executors w' self) =
           last_used_index (executors w self) + int (length (output_index self (opn, out)))"
    and "output_index self (opn, out) = [] \<or>
         output_index self (opn, out) = [last_used_index (executors w self) + 1]"
  using assms
  by (cases opn; auto simp: tracing_defs split: prod.splits sum.splits option.splits if_splits)+

lemma perform_trace:
  assumes "perform opn w = (out, w')"
  shows "trace (executors w' self) = trace (executors w self) @ recorded self (opn, out)"
  using assms
  by (cases opn; auto simp: tracing_defs split: prod.splits sum.splits option.splits if_splits)

lemma execute_snoc: "execute (es @ [e]) st = step e (execute es st)"
  by (induction es arbitrary: st) auto

lemma return_call_effect:
  "\<exists>opn out. perform opn (current st) = (out, current (return_call k st))
      \<and> history (return_call k st) = history st @ [(opn, out)]"
  by (auto simp: return_call_def history_def split: prod.splits)

lemma step_effect:
  "(current (step e st) = current st \<and> history (step e st) = history st)
   \<or> (\<exists>opn out. perform opn (current st) = (out, current (step e st))
         \<and> history (step e st) = history st @ [(opn, out)])"
proof (cases e)
  case (Call opn)
  show ?thesis
  proof (cases "synchronous opn")
    case True
    have "current (st\<lparr>calls := calls st @ [opn]\<rparr>) = current st"
      "history (st\<lparr>calls := calls st @ [opn]\<rparr>) = history st"
      by (simp_all add: history_def)
    with return_call_effect [of "st\<lparr>calls := calls st @ [opn]\<rparr>" "length (calls st)"]
    show ?thesis using True by (simp add: Call)
  next
    case False
    then show ?thesis by (simp add: Call history_def)
  qed
next
  case (Return k)
  show ?thesis
    using return_call_effect [of st k] by (simp add: Return)
qed

lemma execute_trace:
  "trace (executors (current (execute es (start w))) self) =
     trace (executors w self) @ concat (map (recorded self) (history (execute es (start w))))"
proof (induction es rule: rev_induct)
  case Nil
  then show ?case by (simp add: start_def history_def)
next
  case (snoc e es)
  from step_effect [of e "execute es (start w)"] show ?case
  proof (elim disjE conjE exE)
    assume "current (step e (execute es (start w))) = current (execute es (start w))"
      and "history (step e (execute es (start w))) = history (execute es (start w))"
    with snoc show ?thesis by (simp add: execute_snoc)
  next
    fix opn out
    assume p: "perform opn (current (execute es (start w))) =
                 (out, current (step e (execute es (start w))))"
      and h: "history (step e (execute es (start w))) = history (execute es (start w)) @ [(opn, out)]"
    show ?thesis
      using perform_trace [OF p, of self] snoc by (simp add: execute_snoc h)
  qed
qed

lemma execute_output_indices:
  "output_indices self (history (execute es (start w))) =
     [last_used_index (executors w self) + 1 ..
      last_used_index (executors (current (execute es (start w))) self)]
   \<and> last_used_index (executors w self)
       \<le> last_used_index (executors (current (execute es (start w))) self)"
proof (induction es rule: rev_induct)
  case Nil
  then show ?case by (simp add: start_def history_def output_indices_def)
next
  case (snoc e es)
  from step_effect [of e "execute es (start w)"] show ?case
  proof (elim disjE conjE exE)
    assume "current (step e (execute es (start w))) = current (execute es (start w))"
      and "history (step e (execute es (start w))) = history (execute es (start w))"
    with snoc show ?thesis by (simp add: execute_snoc)
  next
    fix opn out
    assume p: "perform opn (current (execute es (start w))) =
                 (out, current (step e (execute es (start w))))"
      and h: "history (step e (execute es (start w))) = history (execute es (start w)) @ [(opn, out)]"
    let ?l = "last_used_index (executors (current (execute es (start w))) self)"
    have l': "last_used_index (executors (current (step e (execute es (start w)))) self) =
                ?l + int (length (output_index self (opn, out)))"
      by (rule perform_last_used_index(1) [OF p])
    from perform_last_used_index(2) [OF p, of self] show ?thesis
    proof
      assume "output_index self (opn, out) = []"
      with snoc l' show ?thesis by (simp add: execute_snoc h output_indices_def)
    next
      assume o: "output_index self (opn, out) = [?l + 1]"
      have "[last_used_index (executors w self) + 1 .. ?l + 1] =
              [last_used_index (executors w self) + 1 .. ?l] @ [?l + 1]"
        using snoc by (subst upto_rec2) auto
      with snoc l' o show ?thesis by (simp add: execute_snoc h output_indices_def)
    qed
  qed
qed

lemma leaves_map: "leaves (map_struct f st) = map f (leaves st)"
  by (induction st) (auto simp: map_concat comp_def snds.simps intro!: arg_cong[where f=concat])

lemma recorded_node: "map entry_node (recorded self x) = call_graph self x"
proof (cases x)
  case (Pair opn out)
  show ?thesis unfolding Pair
    by (cases "(self, (opn, out))" rule: recorded.cases)
       (auto simp: entry_node_def entry_name_def entry_inputs_def entry_output_def leaves_map
             split: option.splits)
qed

lemma recorded_length: "length (recorded self x) = (if traced self x then 1 else 0)"
proof (cases x)
  case (Pair opn out)
  show ?thesis unfolding Pair
    by (cases "(self, (opn, out))" rule: recorded.cases; cases out; auto)
qed

lemma length_concat_recorded:
  "length (concat (map (recorded self) log)) = length (filter (traced self) log)"
  by (induction log) (auto simp: recorded_length)

text \<open>
  C2, as stated, fails when calls overlap: the index is allocated when a call returns, not
  when it is issued.  Two \<open>create_value\<close> calls are issued through a fresh tracing executor
  and the second returns first; the handle of the first operation has index 2 and the handle
  of the second has index 1, so in the order of issue the indices are \<open>2, 1\<close>.
\<close>

theorem index_order_overlapped_calls:
  "calls (execute overlapped_calls (start demo_world)) =
     [Create_value 0 (Number 5) None, Create_value 0 (Number 6) None]
   \<and> outcome_of (execute overlapped_calls (start demo_world)) 0 =
       Some (Returned (demo_handle 2 int32 (Leaf (Number 5))))
   \<and> outcome_of (execute overlapped_calls (start demo_world)) 1 =
       Some (Returned (demo_handle 1 int32 (Leaf (Number 6))))
   \<and> output_indices 0 (call_order (execute overlapped_calls (start demo_world))) = [2, 1]"
  by (simp add: demo_calls_defs scheduler_defs output_indices_def demo_data_defs tracing_defs
        spec_defs demo_defs)

text \<open>
  C2, amended.  Take a tracing executor as \<open>__init__\<close> leaves it and any calls, on it and on
  other executors, returning or raising, awaited one at a time or in flight together.  The
  indices of the handles returned by the operations issued through it are, in the order in
  which the operations return, \<open>1, 2, \<dots>, n\<close>: they start at 1 for the first operation to
  return, are strictly increasing in that order, and never repeat.
\<close>

theorem index_uniqueness:
  assumes "executors w self = TracingExecutor_init tgt"
  shows "output_indices self (history (execute events (start w))) =
           [1 .. int (length (output_indices self (history (execute events (start w)))))]
     \<and> sorted_wrt (<) (output_indices self (history (execute events (start w))))
     \<and> distinct (output_indices self (history (execute events (start w))))"
proof -
  have l0: "last_used_index (executors w self) = 0"
    by (simp add: assms TracingExecutor_init_def)
  have eq: "output_indices self (history (execute events (start w))) =
              [1 .. last_used_index (executors (current (execute events (start w))) self)]"
    and ge: "0 \<le> last_used_index (executors (current (execute events (start w))) self)"
    using execute_output_indices [of self events w] by (simp_all add: l0)
  from ge have "int (length (output_indices self (history (execute events (start w))))) =
      last_used_index (executors (current (execute events (start w))) self)"
    by (simp add: eq)
  then show ?thesis
    by (simp add: eq sorted_wrt_upto)
qed

lemma mixed_calls_indices:
  "output_indices 0 (history (execute mixed_calls (start demo_world))) = [1, 2]"
  "map fst (history (execute mixed_calls (start demo_world))) =
     [Create_value 0 (Thunk 7) None,
      Create_value 1 (Number 6) None,
      Create_value 0 (Number 5) (Some (TensorType DT_BOOL [])),
      Create_value 0 (Number 5) None,
      Close 0]"
  by (simp_all add: demo_calls_defs scheduler_defs output_indices_def demo_data_defs tracing_defs
        spec_defs demo_defs)

theorem index_uniqueness_witness:
  "executors demo_world 0 = TracingExecutor_init (spec_executor demo_backend)
   \<and> map fst (history (execute mixed_calls (start demo_world))) =
     [Create_value 0 (Thunk 7) None,
      Create_value 1 (Number 6) None,
      Create_value 0 (Number 5) (Some (TensorType DT_BOOL [])),
      Create_value 0 (Number 5) None,
      Close 0]
   \<and> output_indices 0 (history (execute mixed_calls (start demo_world))) = [1, 2]
   \<and> sorted_wrt (<) (output_indices 0 (history (execute mixed_calls (start demo_world))))
   \<and> distinct (output_indices 0 (history (execute mixed_calls (start demo_world))))"
proof -
  have init: "executors demo_world 0 = TracingExecutor_init (spec_executor demo_backend)"
    by (simp add: demo_world_def)
  show ?thesis
    using index_uniqueness [OF init, of mixed_calls] init mixed_calls_indices
    by blast
qed

text \<open>
  C3, as stated, fails in two ways.  Not every operation delegated through the wrapper
  leaves an entry: a \<open>create_value\<close> that the target rejects and a \<open>close\<close> are both delegated
  to the target, and the trace is empty afterwards.  And the entries are not in issue order
  when calls overlap: of two \<open>create_value\<close> calls in flight together, the one issued second
  returns first and is recorded first.
\<close>

theorem trace_unrecorded_or_out_of_order:
  "history (execute unrecorded_calls (start demo_world)) =
     [(Create_value 0 (Number 5) (Some (TensorType DT_BOOL [])), Raised TypeMismatchError),
      (Close 0, Closed)]
   \<and> trace (executors (current (execute unrecorded_calls (start demo_world))) 0) = []
   \<and> calls (execute overlapped_calls (start demo_world)) =
       [Create_value 0 (Number 5) None, Create_value 0 (Number 6) None]
   \<and> trace (executors (current (execute overlapped_calls (start demo_world))) 0) =
       [[PyStr ''create_value'', PyValue (Number 6), PyInt 1],
        [PyStr ''create_value'', PyValue (Number 5), PyInt 2]]"
  by (simp add: demo_calls_defs scheduler_defs demo_data_defs tracing_defs spec_defs demo_defs)

text \<open>
  C3, amended.  For all calls, awaited one at a time or in flight together, the trace of a
  tracing executor grows by exactly the entries of the operations that returned, in the
  order in which they returned: one entry for each \<open>create_value\<close>, \<open>create_call\<close>,
  \<open>create_tuple\<close> and \<open>create_selection\<close> issued through it that returned a handle, holding
  the operation name, the indices of the input handles (or the literal value and type for
  \<open>create_value\<close>) and the output index; one entry \<open>('compute', index, result)\<close> for each
  \<open>compute\<close> that returned on a handle it owns; none for an operation that raised or for
  \<open>close\<close>.  The number of new entries is the number of such operations, and the call graph
  of these operations (name, input indices, output index) is what the names and indices of
  the new entries give.
\<close>

theorem trace_records_returned_operations:
  "trace (executors (current (execute events (start w))) self) =
     trace (executors w self) @
       concat (map (recorded self) (history (execute events (start w))))
   \<and> length (trace (executors (current (execute events (start w))) self)) =
       length (trace (executors w self)) +
         length (filter (traced self) (history (execute events (start w))))
   \<and> map entry_node (trace (executors (current (execute events (start w))) self)) =
       map entry_node (trace (executors w self)) @
         concat (map (call_graph self) (history (execute events (start w))))"
proof -
  have t: "trace (executors (current (execute events (start w))) self) =
     trace (executors w self) @
       concat (map (recorded self) (history (execute events (start w))))"
    by (rule execute_trace)
  have n: "map entry_node (concat (map (recorded self) (history (execute events (start w))))) =
         concat (map (call_graph self) (history (execute events (start w))))"
    by (simp add: map_concat comp_def recorded_node)
  show ?thesis
    by (simp only: t length_append length_concat_recorded map_append n)
qed

lemma traced_calls_run:
  "history (execute traced_calls (start demo_world)) =
     [(Create_value 0 (Thunk 7) None,
         Returned (demo_handle 1 (FunctionType None int32) (Leaf (Thunk 7)))),
      (Create_call 0 (demo_handle 1 (FunctionType None int32) (Leaf (Thunk 7))) None,
         Returned (demo_handle 2 int32 (Leaf (Number 7)))),
      (Create_tuple 0 (Struct [(Some ''x'', Leaf (demo_handle 2 int32 (Leaf (Number 7)))),
                               (None, Leaf (demo_handle 2 int32 (Leaf (Number 7))))]),
         Returned (demo_handle 3 pair_type pair_embedded)),
      (Create_selection 0 (demo_handle 3 pair_type pair_embedded) None (Some ''x''),
         Returned (demo_handle 4 int32 (Leaf (Number 7)))),
      (Create_selection 0 (demo_handle 3 pair_type pair_embedded) (Some 0) (Some ''x''),
         Raised SelectionError),
      (Compute (demo_handle 4 int32 (Leaf (Number 7))), Computed (Leaf (Number 7))),
      (Close 0, Closed)]"
  by (simp add: demo_calls_defs scheduler_defs demo_data_defs tracing_defs spec_defs demo_defs)

lemma traced_calls_trace:
  "trace (executors (current (execute traced_calls (start demo_world))) 0) =
     [[PyStr ''create_value'', PyValue (Thunk 7), PyInt 1],
      [PyStr ''create_call'', PyInt 1, PyInt 2],
      [PyStr ''create_tuple'', PyStruct (Struct [(Some ''x'', Leaf 2), (None, Leaf 2)]), PyInt 3],
      [PyStr ''create_selection'', PyInt 3, PyStr ''x'', PyInt 4],
      [PyStr ''compute'', PyInt 4, PyResult (Leaf (Number 7))]]"
  by (simp add: demo_calls_defs scheduler_defs demo_data_defs tracing_defs spec_defs demo_defs)

lemma traced_calls_graph:
  "concat (map (call_graph 0) (history (execute traced_calls (start demo_world)))) =
     [(''create_value'', [], Some 1),
      (''create_call'', [1], Some 2),
      (''create_tuple'', [2, 2], Some 3),
      (''create_selection'', [3], Some 4),
      (''compute'', [4], None)]"
  by (simp add: traced_calls_run demo_handle_def)

theorem trace_records_returned_operations_witness:
  "trace (executors (current (execute traced_calls (start demo_world))) 0) =
     [[PyStr ''create_value'', PyValue (Thunk 7), PyInt 1],
      [PyStr ''create_call'', PyInt 1, PyInt 2],
      [PyStr ''create_tuple'', PyStruct (Struct [(Some ''x'', Leaf 2), (None, Leaf 2)]), PyInt 3],
      [PyStr ''create_selection'', PyInt 3, PyStr ''x'', PyInt 4],
      [PyStr ''compute'', PyInt 4, PyResult (Leaf (Number 7))]]
   \<and> length (history (execute traced_calls (start demo_world))) = 7
   \<and> length (filter (traced 0) (history (execute traced_calls (start demo_world)))) = 5
   \<and> map entry_node (trace (executors (current (execute traced_calls (start demo_world))) 0)) =
     [(''create_value'', [], Some 1),
      (''create_call'', [1], Some 2),
      (''create_tuple'', [2, 2], Some 3),
      (''create_selection'', [3], Some 4),
      (''compute'', [4], None)]"
proof -
  have t0: "trace (executors demo_world 0) = []"
    by (simp add: demo_defs)
  have len: "length (history (execute traced_calls (start demo_world))) = 7"
    by (simp add: traced_calls_run)
  have f: "length (filter (traced 0) (history (execute traced_calls (start demo_world)))) = 5"
    by (simp add: traced_calls_run demo_handle_def)
  from trace_records_returned_operations [of traced_calls demo_world 0]
  have "map entry_node (trace (executors (current (execute traced_calls (start demo_world))) 0)) =
       map entry_node (trace (executors demo_world 0)) @
         concat (map (call_graph 0) (history (execute traced_calls (start demo_world))))"
    by blast
  then have g: "map entry_node (trace (executors (current (execute traced_calls (start demo_world))) 0)) =
     [(''create_value'', [], Some 1),
      (''create_call'', [1], Some 2),
      (''create_tuple'', [2, 2], Some 3),
      (''create_selection'', [3], Some 4),
      (''compute'', [4], None)]"
    by (simp add: t0 traced_calls_graph)
  show ?thesis
    using traced_calls_trace len f g by blast
qed

section \<open>The executor contract under the tracing executor\<close>





lemma selection_first_after_close:
  assumes "target (executors w self) = selection_first_executor b"
    and "\<not> faulty_selection (ev_type_signature (tev_value source)) index name"
  shows "create_selection self source index name (snd (close self w)) =
           (Inl ClosedExecutorError, snd (close self w))"
  using assms
  by (simp add: create_selection_def close_def selection_first_executor_def
        selection_first_create_selection_def spec_defs)

lemma spec_executor_values:
  "ex_create_value (spec_executor b) v type_spec s = (Inr tv, s') \<Longrightarrow>
     \<exists>p. ev_compute tv = spec_compute b p"
  "ex_create_call (spec_executor b) fn arg s = (Inr tv, s') \<Longrightarrow>
     \<exists>p. ev_compute tv = spec_compute b p"
  "ex_create_tuple (spec_executor b) elements s = (Inr tv, s') \<Longrightarrow>
     \<exists>p. ev_compute tv = spec_compute b p"
  "ex_create_selection (spec_executor b) source index name s = (Inr tv, s') \<Longrightarrow>
     \<exists>p. ev_compute tv = spec_compute b p"
  by (auto simp: spec_defs split: if_splits option.splits Type.splits)

text \<open>
  C6.  After \<open>close\<close>, which does not fail, each of \<open>create_value\<close>, \<open>create_call\<close>,
  \<open>create_tuple\<close>, \<open>create_selection\<close> and \<open>compute\<close> (on a handle of the executor) fails with
  \<open>ClosedExecutorError\<close> and changes nothing, so the executor stays closed; a second
  \<open>close\<close> does not fail and changes nothing.
\<close>

theorem closed_executor_contract:
  assumes "target (executors w self) = spec_executor b"
    and "ev_compute (tev_value h) = spec_compute b p"
  shows "fst (close self w) = Inr ()
     \<and> create_value self v type_spec (snd (close self w)) =
         (Inl ClosedExecutorError, snd (close self w))
     \<and> create_call self fn arg (snd (close self w)) =
         (Inl ClosedExecutorError, snd (close self w))
     \<and> create_tuple self elements (snd (close self w)) =
         (Inl ClosedExecutorError, snd (close self w))
     \<and> create_selection self source index name (snd (close self w)) =
         (Inl ClosedExecutorError, snd (close self w))
     \<and> compute h (snd (close self w)) = (Inl ClosedExecutorError, snd (close self w))
     \<and> close self (snd (close self w)) = (Inr (), snd (close self w))"
proof -
  define w1 where "w1 = snd (close self w)"
  have c: "closed (target_world w1)" and t: "target (executors w1 self) = spec_executor b"
    by (simp_all add: w1_def close_def assms(1) spec_executor_def spec_close_def)
  have w: "w1\<lparr>target_world := target_world w1\<rparr> = w1" by simp
  have "fst (close self w) = Inr ()"
    by (simp add: close_def assms(1) spec_executor_def spec_close_def)
  moreover have "create_value self v type_spec w1 = (Inl ClosedExecutorError, w1)"
    by (simp add: create_value_def t c spec_executor_def spec_create_value_def)
  moreover have "create_call self fn arg w1 = (Inl ClosedExecutorError, w1)"
    by (simp add: create_call_def t c spec_executor_def spec_create_call_def split: option.splits)
  moreover have "create_tuple self elements w1 = (Inl ClosedExecutorError, w1)"
    by (simp add: create_tuple_def t c spec_executor_def spec_create_tuple_def)
  moreover have "create_selection self source index name w1 = (Inl ClosedExecutorError, w1)"
    by (simp add: create_selection_def t c spec_executor_def spec_create_selection_def)
  moreover have "compute h w1 = (Inl ClosedExecutorError, w1)"
    by (simp add: compute_def assms(2) c spec_compute_def)
  moreover have "close self w1 = (Inr (), w1)"
    using c by (simp add: close_def t spec_executor_def spec_close_def)
  ultimately show ?thesis unfolding w1_def by blast
qed

theorem closed_executor_contract_witness:
  "target (executors demo_world 0) = spec_executor demo_backend
   \<and> ev_compute (tev_value (demo_handle 4 int32 (Leaf (Number 7)))) =
       spec_compute demo_backend (Leaf (Number 7))
   \<and> fst (close 0 demo_world) = Inr ()
   \<and> fst (create_value 0 (Number 5) None (snd (close 0 demo_world))) = Inl ClosedExecutorError
   \<and> fst (create_call 0 (demo_handle 1 (FunctionType None int32) (Leaf (Thunk 7))) None
          (snd (close 0 demo_world))) = Inl ClosedExecutorError
   \<and> fst (create_tuple 0 (Struct []) (snd (close 0 demo_world))) = Inl ClosedExecutorError
   \<and> fst (create_selection 0 (demo_handle 3 pair_type pair_embedded) (Some 0) None
          (snd (close 0 demo_world))) = Inl ClosedExecutorError
   \<and> fst (compute (demo_handle 4 int32 (Leaf (Number 7))) (snd (close 0 demo_world))) =
       Inl ClosedExecutorError
   \<and> fst (close 0 (snd (close 0 demo_world))) = Inr ()"
proof -
  have t: "target (executors demo_world 0) = spec_executor demo_backend"
    by (simp add: demo_defs)
  have h: "ev_compute (tev_value (demo_handle 4 int32 (Leaf (Number 7)))) =
       spec_compute demo_backend (Leaf (Number 7))"
    by (simp add: demo_handle_def spec_value_def)
  from closed_executor_contract [OF t h, of "Number 5" None
      "demo_handle 1 (FunctionType None int32) (Leaf (Thunk 7))" None "Struct []"
      "demo_handle 3 pair_type pair_embedded" "Some 0" None] t h
  show ?thesis by simp
qed

section \<open>The dummy TensorFlow computation\<close>

text \<open>
  C8.  The computation built for the zero-argument function that returns an empty tuple has
  a serialized type that deserializes to \<open>( -> <>)\<close>, and its variant is a TensorFlow fragment
  whose parameter binding is absent.
\<close>

theorem dummy_empty_tensorflow_computation:
  "deserialize_type (computation_type (create_dummy_empty_tensorflow_computation g)) =
     Inr (FunctionType None (NamedTupleType []))
   \<and> (\<exists>tf. computation (create_dummy_empty_tensorflow_computation g) = pb_tensorflow tf
          \<and> parameter tf = None)"
  by (simp add: create_dummy_empty_tensorflow_computation_def)

theorem dummy_empty_tensorflow_computation_witness:
  "create_dummy_empty_tensorflow_computation ''graph'' =
     pb_Computation (pb_function None (pb_tuple []))
       (pb_tensorflow \<lparr>graph_def = ''graph'', parameter = None, result = Some (pb_tuple_binding [])\<rparr>)
   \<and> deserialize_type (computation_type (create_dummy_empty_tensorflow_computation ''graph'')) =
     Inr (FunctionType None (NamedTupleType []))"
  using dummy_empty_tensorflow_computation [of "''graph''"]
  by (simp add: create_dummy_empty_tensorflow_computation_def)

end
